theory Spec2Isabelle
  imports Main "HOL-Library.Word"
begin

unbundle bit_operations_syntax

section \<open>The operating-system interface used by disclaim.cpp\<close>

text \<open>
  \<^verbatim>\<open>disclaim.cpp\<close> holds one function, \<^verbatim>\<open>disclaim()\<close>, and one macro,
  \<^verbatim>\<open>CHECK_SPAWN\<close>. Everything else it touches belongs to the operating system: the
  spawn-attributes calls, the signal sets, the spawn call, \<^verbatim>\<open>strerror\<close>,
  \<^verbatim>\<open>fprintf\<close> and \<^verbatim>\<open>exit\<close>. The function is modelled over a process state that
  holds its local variable \<^verbatim>\<open>attr\<close> and the ordered list of everything the process
  did that can be observed from outside (calls into the OS with their arguments, text
  written to standard error, the call of exit).
\<close>

subsection \<open>Signal sets\<close>

text \<open>
  Modelled from the spec: \<^verbatim>\<open>sigset_t\<close>, \<^verbatim>\<open>sigemptyset\<close> and \<^verbatim>\<open>sigfillset\<close> come from
  \<^verbatim>\<open><signal.h>\<close>, which is not part of the repository. The spec calls them
  ``a signal-mask and signal-disposition representation (empty set / full set)'': a
  signal set is the set of the signal numbers in it, \<^verbatim>\<open>sigemptyset\<close> leaves the set
  with no signal in it and \<^verbatim>\<open>sigfillset\<close> leaves it with every signal in it.
\<close>

type_synonym sigset_t = "int set"

definition sigemptyset :: sigset_t where
  "sigemptyset = {}"

definition sigfillset :: sigset_t where
  "sigfillset = UNIV"

subsection \<open>The spawn-attributes object\<close>

text \<open>
  Modelled from the spec: \<^verbatim>\<open>posix_spawnattr_t\<close> is declared in \<^verbatim>\<open><spawn.h>\<close>, not in
  the repository. The spec describes it as an opaque bundle on which four attributes
  are set: the flags (which carry the execution mode), the signal mask to install, the
  signals whose dispositions are reset to default, and the responsibility-disclaim
  value. A freshly initialised object has no flag set, both signal sets empty and
  the disclaim value 0.
\<close>

record spawnattr =
  psa_flags :: "16 word"
  psa_sigmask :: sigset_t
  psa_sigdefault :: sigset_t
  psa_disclaim :: int

definition spawnattr_default :: spawnattr where
  "spawnattr_default =
     \<lparr>psa_flags = 0, psa_sigmask = {}, psa_sigdefault = {}, psa_disclaim = 0\<rparr>"

text \<open>
  \<^verbatim>\<open>posix_spawn_file_actions_t\<close> is opaque as well; the source only ever passes
  \<^verbatim>\<open>nullptr\<close> for it, which is \<open>None\<close> here.
\<close>

type_synonym file_actions = unit

subsection \<open>What the operating system decides\<close>

text \<open>
  The values that the source takes from the platform and that are not in the
  repository are parameters of the model: the three flag constants of
  \<^verbatim>\<open><spawn.h>\<close> (flags has the C type \<^verbatim>\<open>short\<close>, 16 bits), the error number each
  call returns (0 for success; every call is made at most once in a run of
  \<^verbatim>\<open>disclaim\<close>, so one number per call is as general as a function of the arguments),
  whether \<^verbatim>\<open>__builtin_available(macOS 10.14, *)\<close> holds, whether the weakly imported
  symbol \<^verbatim>\<open>responsibility_spawnattrs_setdisclaim\<close> is bound, the argument vector
  \<^verbatim>\<open>*_NSGetArgv()\<close>, the environment block \<^verbatim>\<open>environ\<close>, and \<^verbatim>\<open>strerror\<close>.
\<close>

record os =
  POSIX_SPAWN_SETEXEC :: "16 word"
  POSIX_SPAWN_SETSIGMASK :: "16 word"
  POSIX_SPAWN_SETSIGDEF :: "16 word"
  rc_attr_init :: int
  rc_attr_setsigmask :: int
  rc_attr_setsigdefault :: int
  rc_attr_setflags :: int
  builtin_available :: bool
  setdisclaim_bound :: bool
  rc_setdisclaim :: int
  rc_spawnp :: int
  NSGetArgv :: "string list"
  environ :: "string list"
  strerror :: "int \<Rightarrow> string"

subsection \<open>Process state, observable events, ways of not returning\<close>

text \<open>
  Every call on the attributes object records the state of the variable \<^verbatim>\<open>attr\<close> at
  the moment of the call: \<open>None\<close> while it holds no initialised object.
\<close>

datatype event =
    Call_attr_init "spawnattr option"
  | Call_attr_setsigmask "spawnattr option" sigset_t
  | Call_attr_setsigdefault "spawnattr option" sigset_t
  | Call_attr_setflags "spawnattr option" "16 word"
  | Call_setdisclaim "spawnattr option" int
  | Call_spawnp "string option" "file_actions option" "spawnattr option"
      "string list" "string list"
  | Call_attr_destroy "spawnattr option"
  | Write_stderr string
  | Call_exit int

record proc =
  attr :: "spawnattr option"
  trace :: "event list"

text \<open>
  The program image that replaces the calling process when a spawn with the
  replace-calling-process flag succeeds.
\<close>

record image =
  img_path :: "string option"
  img_attr :: "spawnattr option"
  img_argv :: "string list"
  img_envp :: "string list"

text \<open>
  A call either returns a value (\<open>Inr\<close>) or never returns (\<open>Inl\<close>): the process
  has called \<^verbatim>\<open>exit\<close> with a status, or its image has been replaced.
\<close>

datatype halt = Exit int | Replaced image

type_synonym 'a act = "proc \<Rightarrow> (halt + 'a) \<times> proc"

definition return_act :: "'a \<Rightarrow> 'a act" where
  "return_act x s = (Inr x, s)"

definition bind_act :: "'a act \<Rightarrow> ('a \<Rightarrow> 'b act) \<Rightarrow> 'b act" where
  "bind_act m k s = (case m s of (Inl h, s') \<Rightarrow> (Inl h, s') | (Inr x, s') \<Rightarrow> k x s')"

text \<open>Statement sequencing: what follows runs only if what precedes returns.\<close>

definition seq_act :: "unit act \<Rightarrow> 'b act \<Rightarrow> 'b act" where
  "seq_act m k = bind_act m (\<lambda>_. k)"

definition emit :: "event \<Rightarrow> proc \<Rightarrow> proc" where
  "emit e s = s\<lparr>trace := trace s @ [e]\<rparr>"

subsection \<open>The calls\<close>

text \<open>
  Modelled from the spec: the calls below are OS facilities (``external collaborators,
  not reimplemented''). Each records itself, returns the error number the OS decides,
  and on success has the effect on the attributes object that its name says. The value
  returned by \<^verbatim>\<open>posix_spawnattr_destroy\<close> and by \<^verbatim>\<open>fprintf\<close> is discarded by the source.
\<close>

definition posix_spawnattr_init :: "os \<Rightarrow> int act" where
  "posix_spawnattr_init os s =
     (let s1 = emit (Call_attr_init (attr s)) s in
      if rc_attr_init os = 0 then (Inr 0, s1\<lparr>attr := Some spawnattr_default\<rparr>)
      else (Inr (rc_attr_init os), s1))"

definition posix_spawnattr_setsigmask :: "os \<Rightarrow> sigset_t \<Rightarrow> int act" where
  "posix_spawnattr_setsigmask os sigs s =
     (let s1 = emit (Call_attr_setsigmask (attr s) sigs) s in
      if rc_attr_setsigmask os = 0
      then (Inr 0, s1\<lparr>attr := map_option (\<lambda>a. a\<lparr>psa_sigmask := sigs\<rparr>) (attr s)\<rparr>)
      else (Inr (rc_attr_setsigmask os), s1))"

definition posix_spawnattr_setsigdefault :: "os \<Rightarrow> sigset_t \<Rightarrow> int act" where
  "posix_spawnattr_setsigdefault os sigs s =
     (let s1 = emit (Call_attr_setsigdefault (attr s) sigs) s in
      if rc_attr_setsigdefault os = 0
      then (Inr 0, s1\<lparr>attr := map_option (\<lambda>a. a\<lparr>psa_sigdefault := sigs\<rparr>) (attr s)\<rparr>)
      else (Inr (rc_attr_setsigdefault os), s1))"

definition posix_spawnattr_setflags :: "os \<Rightarrow> 16 word \<Rightarrow> int act" where
  "posix_spawnattr_setflags os flags s =
     (let s1 = emit (Call_attr_setflags (attr s) flags) s in
      if rc_attr_setflags os = 0
      then (Inr 0, s1\<lparr>attr := map_option (\<lambda>a. a\<lparr>psa_flags := flags\<rparr>) (attr s)\<rparr>)
      else (Inr (rc_attr_setflags os), s1))"

definition responsibility_spawnattrs_setdisclaim :: "os \<Rightarrow> int \<Rightarrow> int act" where
  "responsibility_spawnattrs_setdisclaim os disclaim_value s =
     (let s1 = emit (Call_setdisclaim (attr s) disclaim_value) s in
      if rc_setdisclaim os = 0
      then (Inr 0, s1\<lparr>attr := map_option (\<lambda>a. a\<lparr>psa_disclaim := disclaim_value\<rparr>) (attr s)\<rparr>)
      else (Inr (rc_setdisclaim os), s1))"

definition posix_spawnattr_destroy :: "unit act" where
  "posix_spawnattr_destroy s = (Inr (), (emit (Call_attr_destroy (attr s)) s)\<lparr>attr := None\<rparr>)"

definition fprintf_stderr :: "string \<Rightarrow> unit act" where
  "fprintf_stderr text s = (Inr (), emit (Write_stderr text) s)"

definition exit :: "int \<Rightarrow> 'a act" where
  "exit status s = (Inl (Exit status), emit (Call_exit status) s)"

text \<open>
  Modelled from the spec: \<^verbatim>\<open>posix_spawnp\<close> is an OS facility. ``Because the
  configuration requested "replace calling process" semantics, a successful call never
  returns --- the process image is replaced in place'': a call that fails returns its
  error number; a call that succeeds on an attributes object whose flags contain
  \<^verbatim>\<open>POSIX_SPAWN_SETEXEC\<close> replaces the process image by one started on the given path,
  argument vector and environment; a call that succeeds without that flag has started a
  child and returns 0. The process id written through the first argument is never read
  by the source and is left out.
\<close>

definition setexec_requested :: "os \<Rightarrow> spawnattr option \<Rightarrow> bool" where
  "setexec_requested os a =
     (case a of None \<Rightarrow> False | Some x \<Rightarrow> psa_flags x AND POSIX_SPAWN_SETEXEC os \<noteq> 0)"

definition posix_spawnp ::
  "os \<Rightarrow> string option \<Rightarrow> file_actions option \<Rightarrow> string list \<Rightarrow> string list \<Rightarrow> int act" where
  "posix_spawnp os path file_actions argv envp s =
     (let s1 = emit (Call_spawnp path file_actions (attr s) argv envp) s in
      if rc_spawnp os \<noteq> 0 then (Inr (rc_spawnp os), s1)
      else if setexec_requested os (attr s)
      then (Inl (Replaced \<lparr>img_path = path, img_attr = attr s,
                           img_argv = argv, img_envp = envp\<rparr>), s1)
      else (Inr 0, s1))"

text \<open>
  \<^verbatim>\<open>argv[0]\<close>: the argument vector is an array of strings closed by a null pointer, so
  element 0 of an empty vector is that null pointer.
\<close>

definition argv0 :: "string list \<Rightarrow> string option" where
  "argv0 argv = (case argv of [] \<Rightarrow> None | a # _ \<Rightarrow> Some a)"

section \<open>The source\<close>

text \<open>
  \<^verbatim>\<open>
  #define CHECK_SPAWN(expr) \
      if (int err = (expr)) { \
          posix_spawnattr_destroy(&attr); \
          fprintf(stderr, "[disclaim] %s: %s", #expr, strerror(err)); \
          exit(err); \
      }
  \<close>
  The macro's argument appears twice: evaluated (\<open>expr\<close>) and turned into a string
  literal by \<^verbatim>\<open>#expr\<close> (\<open>expr_text\<close>).
\<close>

definition CHECK_SPAWN :: "os \<Rightarrow> string \<Rightarrow> int act \<Rightarrow> unit act" where
  "CHECK_SPAWN os expr_text expr =
     bind_act expr (\<lambda>err.
       if err \<noteq> 0 then
         seq_act posix_spawnattr_destroy
        (seq_act (fprintf_stderr (''[disclaim] '' @ expr_text @ '': '' @ strerror os err))
        (exit err))
       else return_act ())"

text \<open>
  \<^verbatim>\<open>disclaim()\<close>, statement by statement. The declaration \<^verbatim>\<open>posix_spawnattr_t attr;\<close>
  gives a variable that holds no initialised object.
\<close>

definition disclaim :: "os \<Rightarrow> unit act" where
  "disclaim os s =
    (seq_act (CHECK_SPAWN os ''posix_spawnattr_init(&attr)'' (posix_spawnattr_init os))
     (let flags = POSIX_SPAWN_SETEXEC os;
          no_signals = sigemptyset in
      seq_act (CHECK_SPAWN os ''posix_spawnattr_setsigmask(&attr, &no_signals)''
                 (posix_spawnattr_setsigmask os no_signals))
      (let flags = flags OR POSIX_SPAWN_SETSIGMASK os;
           all_signals = sigfillset in
       seq_act (CHECK_SPAWN os ''posix_spawnattr_setsigdefault(&attr, &all_signals)''
                  (posix_spawnattr_setsigdefault os all_signals))
       (let flags = flags OR POSIX_SPAWN_SETSIGDEF os in
        seq_act (CHECK_SPAWN os ''posix_spawnattr_setflags(&attr, flags)''
                   (posix_spawnattr_setflags os flags))
        (seq_act
           (if builtin_available os then
              (if setdisclaim_bound os then
                 CHECK_SPAWN os ''responsibility_spawnattrs_setdisclaim(&attr, 1)''
                   (responsibility_spawnattrs_setdisclaim os 1)
               else return_act ())
            else return_act ())
           (let argv = NSGetArgv os in
            CHECK_SPAWN os ''posix_spawnp(&pid, argv[0], nullptr, &attr, argv, environ)''
              (posix_spawnp os (argv0 argv) None argv (environ os))))))))
    (s\<lparr>attr := None\<rparr>)"

section \<open>Observing a run\<close>

text \<open>
  The outcome of a call of \<^verbatim>\<open>disclaim\<close> from a process state, and the events the call
  adds to the trace of that state, in order.
\<close>

definition outcome :: "os \<Rightarrow> proc \<Rightarrow> halt + unit" where
  "outcome os s = fst (disclaim os s)"

definition events :: "os \<Rightarrow> proc \<Rightarrow> event list" where
  "events os s = drop (length (trace s)) (trace (snd (disclaim os s)))"

text \<open>Which events are of a given kind, and the arguments of the calls of a given kind.\<close>

fun is_spawnp :: "event \<Rightarrow> bool" where
  "is_spawnp (Call_spawnp path fa a argv envp) = True"
| "is_spawnp _ = False"

fun is_setdisclaim :: "event \<Rightarrow> bool" where
  "is_setdisclaim (Call_setdisclaim a v) = True"
| "is_setdisclaim _ = False"

fun is_destroy :: "event \<Rightarrow> bool" where
  "is_destroy (Call_attr_destroy a) = True"
| "is_destroy _ = False"

fun is_exit :: "event \<Rightarrow> bool" where
  "is_exit (Call_exit e) = True"
| "is_exit _ = False"

fun stderr_writes :: "event list \<Rightarrow> string list" where
  "stderr_writes [] = []"
| "stderr_writes (Write_stderr text # evs) = text # stderr_writes evs"
| "stderr_writes (_ # evs) = stderr_writes evs"

fun setflags_calls :: "event list \<Rightarrow> 16 word list" where
  "setflags_calls [] = []"
| "setflags_calls (Call_attr_setflags a flags # evs) = flags # setflags_calls evs"
| "setflags_calls (_ # evs) = setflags_calls evs"

fun setsigmask_calls :: "event list \<Rightarrow> sigset_t list" where
  "setsigmask_calls [] = []"
| "setsigmask_calls (Call_attr_setsigmask a sigs # evs) = sigs # setsigmask_calls evs"
| "setsigmask_calls (_ # evs) = setsigmask_calls evs"

fun setsigdefault_calls :: "event list \<Rightarrow> sigset_t list" where
  "setsigdefault_calls [] = []"
| "setsigdefault_calls (Call_attr_setsigdefault a sigs # evs) = sigs # setsigdefault_calls evs"
| "setsigdefault_calls (_ # evs) = setsigdefault_calls evs"

fun spawn_attrs :: "event list \<Rightarrow> spawnattr option list" where
  "spawn_attrs [] = []"
| "spawn_attrs (Call_spawnp path fa a argv envp # evs) = a # spawn_attrs evs"
| "spawn_attrs (_ # evs) = spawn_attrs evs"

text \<open>
  The events of the failure branch of \<^verbatim>\<open>CHECK_SPAWN\<close>, for the text of the failed call and
  its error number, and the states of the attributes object along the successful path.
\<close>

definition diagnostic :: "os \<Rightarrow> string \<Rightarrow> int \<Rightarrow> string" where
  "diagnostic os step e = ''[disclaim] '' @ step @ '': '' @ strerror os e"

definition abort_events :: "os \<Rightarrow> spawnattr option \<Rightarrow> string \<Rightarrow> int \<Rightarrow> event list" where
  "abort_events os a step e =
     [Call_attr_destroy a, Write_stderr (diagnostic os step e), Call_exit e]"

definition all_flags :: "os \<Rightarrow> 16 word" where
  "all_flags os =
     (POSIX_SPAWN_SETEXEC os OR POSIX_SPAWN_SETSIGMASK os) OR POSIX_SPAWN_SETSIGDEF os"

definition attr_masked :: spawnattr where
  "attr_masked = \<lparr>psa_flags = 0, psa_sigmask = {}, psa_sigdefault = {}, psa_disclaim = 0\<rparr>"

definition attr_sigdef :: spawnattr where
  "attr_sigdef = \<lparr>psa_flags = 0, psa_sigmask = {}, psa_sigdefault = UNIV, psa_disclaim = 0\<rparr>"

definition attr_flagged :: "os \<Rightarrow> spawnattr" where
  "attr_flagged os =
     \<lparr>psa_flags = all_flags os, psa_sigmask = {}, psa_sigdefault = UNIV, psa_disclaim = 0\<rparr>"

definition attr_disclaimed :: "os \<Rightarrow> spawnattr" where
  "attr_disclaimed os =
     \<lparr>psa_flags = all_flags os, psa_sigmask = {}, psa_sigdefault = UNIV, psa_disclaim = 1\<rparr>"

definition config_calls :: "os \<Rightarrow> event list" where
  "config_calls os =
     [Call_attr_init None,
      Call_attr_setsigmask (Some spawnattr_default) {},
      Call_attr_setsigdefault (Some attr_masked) UNIV,
      Call_attr_setflags (Some attr_sigdef) (all_flags os)]"

text \<open>
  Step 6 of the spec: the extension is called when the availability check passes and the
  weakly imported symbol is bound.
\<close>

definition disclaims :: "os \<Rightarrow> bool" where
  "disclaims os \<longleftrightarrow> builtin_available os \<and> setdisclaim_bound os"

definition attr_final :: "os \<Rightarrow> spawnattr" where
  "attr_final os = (if disclaims os then attr_disclaimed os else attr_flagged os)"

definition disclaim_calls :: "os \<Rightarrow> event list" where
  "disclaim_calls os =
     (if disclaims os then [Call_setdisclaim (Some (attr_flagged os)) 1] else [])"

definition spawn_call :: "os \<Rightarrow> event" where
  "spawn_call os =
     Call_spawnp (argv0 (NSGetArgv os)) None (Some (attr_final os)) (NSGetArgv os) (environ os)"

text \<open>The four configuration calls of steps 1 to 5 all succeed.\<close>

definition config_ok :: "os \<Rightarrow> bool" where
  "config_ok os \<longleftrightarrow>
     rc_attr_init os = 0 \<and> rc_attr_setsigmask os = 0 \<and>
     rc_attr_setsigdefault os = 0 \<and> rc_attr_setflags os = 0"

text \<open>
  The spec's error taxonomy: a failure carries ``an OS error code and the name of the
  failing step''. The failing step of a run is the first call, in the order of the
  source, that returns a non-zero error number; the extension is called only when step 6
  does not skip it.
\<close>

definition first_failure :: "os \<Rightarrow> (string \<times> int) option" where
  "first_failure os =
     (if rc_attr_init os \<noteq> 0 then
        Some (''posix_spawnattr_init(&attr)'', rc_attr_init os)
      else if rc_attr_setsigmask os \<noteq> 0 then
        Some (''posix_spawnattr_setsigmask(&attr, &no_signals)'', rc_attr_setsigmask os)
      else if rc_attr_setsigdefault os \<noteq> 0 then
        Some (''posix_spawnattr_setsigdefault(&attr, &all_signals)'', rc_attr_setsigdefault os)
      else if rc_attr_setflags os \<noteq> 0 then
        Some (''posix_spawnattr_setflags(&attr, flags)'', rc_attr_setflags os)
      else if builtin_available os \<and> setdisclaim_bound os \<and> rc_setdisclaim os \<noteq> 0 then
        Some (''responsibility_spawnattrs_setdisclaim(&attr, 1)'', rc_setdisclaim os)
      else if rc_spawnp os \<noteq> 0 then
        Some (''posix_spawnp(&pid, argv[0], nullptr, &attr, argv, environ)'', rc_spawnp os)
      else None)"

text \<open>
  A process at the start of the call, and a sample platform on which every call succeeds:
  flag values 0x40, 0x08 and 0x04, the extension available and bound.
\<close>

definition proc_start :: proc where
  "proc_start = \<lparr>attr = None, trace = []\<rparr>"

definition sample_os :: os where
  "sample_os =
     \<lparr>POSIX_SPAWN_SETEXEC = 0x40, POSIX_SPAWN_SETSIGMASK = 0x08, POSIX_SPAWN_SETSIGDEF = 0x04,
      rc_attr_init = 0, rc_attr_setsigmask = 0, rc_attr_setsigdefault = 0,
      rc_attr_setflags = 0, builtin_available = True, setdisclaim_bound = True,
      rc_setdisclaim = 0, rc_spawnp = 0,
      NSGetArgv = [''osxphotos'', ''export'', ''/tmp/out''],
      environ = [''HOME=/Users/photos'', ''LANG=en_US.UTF-8''],
      strerror = (\<lambda>e. if e = 2 then ''No such file or directory''
                       else if e = 12 then ''Cannot allocate memory''
                       else if e = 22 then ''Invalid argument''
                       else ''Unknown error'')\<rparr>"

section \<open>The runs of disclaim\<close>

text \<open>
  One lemma for each way a run can go: which call fails first, or none. Each gives the
  outcome and the full list of events.
\<close>

lemmas act_defs = return_act_def bind_act_def seq_act_def emit_def
  posix_spawnattr_init_def posix_spawnattr_setsigmask_def posix_spawnattr_setsigdefault_def
  posix_spawnattr_setflags_def responsibility_spawnattrs_setdisclaim_def
  posix_spawnattr_destroy_def fprintf_stderr_def exit_def posix_spawnp_def
  CHECK_SPAWN_def disclaim_def Let_def sigemptyset_def sigfillset_def

lemmas obs_defs = outcome_def events_def abort_events_def diagnostic_def config_calls_def
  spawnattr_default_def attr_masked_def attr_sigdef_def attr_flagged_def attr_disclaimed_def

lemma or_and_absorb: "((a OR b) OR c) AND a = (a :: 16 word)"
  by (auto simp: bit_eq_iff bit_and_iff bit_or_iff)

lemma run_init_fails:
  assumes "rc_attr_init os \<noteq> 0"
  shows "outcome os s = Inl (Exit (rc_attr_init os)) \<and>
         events os s = Call_attr_init None #
           abort_events os None ''posix_spawnattr_init(&attr)'' (rc_attr_init os)"
  using assms by (simp add: act_defs obs_defs)

lemma run_setsigmask_fails:
  assumes "rc_attr_init os = 0" "rc_attr_setsigmask os \<noteq> 0"
  shows "outcome os s = Inl (Exit (rc_attr_setsigmask os)) \<and>
         events os s = take 2 (config_calls os) @
           abort_events os (Some spawnattr_default)
             ''posix_spawnattr_setsigmask(&attr, &no_signals)'' (rc_attr_setsigmask os)"
  using assms by (simp add: act_defs obs_defs)

lemma run_setsigdefault_fails:
  assumes "rc_attr_init os = 0" "rc_attr_setsigmask os = 0" "rc_attr_setsigdefault os \<noteq> 0"
  shows "outcome os s = Inl (Exit (rc_attr_setsigdefault os)) \<and>
         events os s = take 3 (config_calls os) @
           abort_events os (Some attr_masked)
             ''posix_spawnattr_setsigdefault(&attr, &all_signals)'' (rc_attr_setsigdefault os)"
  using assms by (simp add: act_defs obs_defs)

lemma run_setflags_fails:
  assumes "rc_attr_init os = 0" "rc_attr_setsigmask os = 0" "rc_attr_setsigdefault os = 0"
    "rc_attr_setflags os \<noteq> 0"
  shows "outcome os s = Inl (Exit (rc_attr_setflags os)) \<and>
         events os s = config_calls os @
           abort_events os (Some attr_sigdef)
             ''posix_spawnattr_setflags(&attr, flags)'' (rc_attr_setflags os)"
  using assms by (simp add: act_defs obs_defs all_flags_def)

lemma run_setdisclaim_fails:
  assumes "config_ok os" "disclaims os" "rc_setdisclaim os \<noteq> 0"
  shows "outcome os s = Inl (Exit (rc_setdisclaim os)) \<and>
         events os s = config_calls os @ Call_setdisclaim (Some (attr_flagged os)) 1 #
           abort_events os (Some (attr_flagged os))
             ''responsibility_spawnattrs_setdisclaim(&attr, 1)'' (rc_setdisclaim os)"
  using assms by (simp add: act_defs obs_defs all_flags_def config_ok_def disclaims_def)

lemma run_spawnp_fails:
  assumes "config_ok os" "disclaims os \<longrightarrow> rc_setdisclaim os = 0" "rc_spawnp os \<noteq> 0"
  shows "outcome os s = Inl (Exit (rc_spawnp os)) \<and>
         events os s = config_calls os @ disclaim_calls os @ spawn_call os #
           abort_events os (Some (attr_final os))
             ''posix_spawnp(&pid, argv[0], nullptr, &attr, argv, environ)'' (rc_spawnp os)"
  using assms
  by (cases "disclaims os")
     (simp_all add: act_defs obs_defs all_flags_def config_ok_def disclaims_def
        disclaim_calls_def spawn_call_def attr_final_def)

lemma run_spawnp_replaces:
  assumes "config_ok os" "disclaims os \<longrightarrow> rc_setdisclaim os = 0" "rc_spawnp os = 0"
    "POSIX_SPAWN_SETEXEC os \<noteq> 0"
  shows "outcome os s = Inl (Replaced \<lparr>img_path = argv0 (NSGetArgv os),
           img_attr = Some (attr_final os), img_argv = NSGetArgv os, img_envp = environ os\<rparr>) \<and>
         events os s = config_calls os @ disclaim_calls os @ [spawn_call os]"
  using assms
  by (cases "disclaims os")
     (simp_all add: act_defs obs_defs all_flags_def config_ok_def disclaims_def
        disclaim_calls_def spawn_call_def attr_final_def setexec_requested_def or_and_absorb)

lemma run_spawnp_returns:
  assumes "config_ok os" "disclaims os \<longrightarrow> rc_setdisclaim os = 0" "rc_spawnp os = 0"
    "POSIX_SPAWN_SETEXEC os = 0"
  shows "outcome os s = Inr () \<and>
         events os s = config_calls os @ disclaim_calls os @ [spawn_call os]"
  using assms
  by (cases "disclaims os")
     (simp_all add: act_defs obs_defs all_flags_def config_ok_def disclaims_def
        disclaim_calls_def spawn_call_def attr_final_def setexec_requested_def)

lemma first_failure_None:
  "first_failure os = None \<longleftrightarrow>
     config_ok os \<and> (disclaims os \<longrightarrow> rc_setdisclaim os = 0) \<and> rc_spawnp os = 0"
  by (auto simp: first_failure_def config_ok_def disclaims_def)

lemma trace_extends: "trace (snd (disclaim os s)) = trace s @ events os s"
  by (simp add: act_defs events_def split: if_splits prod.splits sum.splits)

lemma stderr_writes_append: "stderr_writes (xs @ ys) = stderr_writes xs @ stderr_writes ys"
  by (induction xs rule: stderr_writes.induct) simp_all

lemma quiet_config_calls:
  "filter is_destroy (config_calls os) = []" "stderr_writes (config_calls os) = []"
  "filter is_exit (config_calls os) = []"
  by (simp_all add: config_calls_def)

lemma quiet_disclaim_calls:
  "filter is_destroy (disclaim_calls os) = []" "stderr_writes (disclaim_calls os) = []"
  "filter is_exit (disclaim_calls os) = []"
  by (simp_all add: disclaim_calls_def)

lemma failure_run:
  assumes "first_failure os = Some (step, e)"
  shows "outcome os s = Inl (Exit e) \<and>
         (\<exists>pre a. events os s = pre @ abort_events os a step e \<and>
            filter is_destroy pre = [] \<and> stderr_writes pre = [] \<and> filter is_exit pre = [])"
proof -
  consider
      (init) "rc_attr_init os \<noteq> 0"
    | (mask) "rc_attr_init os = 0" "rc_attr_setsigmask os \<noteq> 0"
    | (sigdef) "rc_attr_init os = 0" "rc_attr_setsigmask os = 0" "rc_attr_setsigdefault os \<noteq> 0"
    | (flags) "rc_attr_init os = 0" "rc_attr_setsigmask os = 0" "rc_attr_setsigdefault os = 0"
        "rc_attr_setflags os \<noteq> 0"
    | (ext) "config_ok os" "disclaims os" "rc_setdisclaim os \<noteq> 0"
    | (spawn) "config_ok os" "disclaims os \<longrightarrow> rc_setdisclaim os = 0" "rc_spawnp os \<noteq> 0"
    using assms by (auto simp: first_failure_def config_ok_def disclaims_def split: if_splits)
  then show ?thesis
  proof cases
    case init
    with assms have se: "step = ''posix_spawnattr_init(&attr)''" "e = rc_attr_init os"
      by (simp_all add: first_failure_def)
    have "events os s = [Call_attr_init None] @ abort_events os None step e"
      using init run_init_fails [of os s] by (simp add: se)
    moreover have "outcome os s = Inl (Exit e)"
      using init run_init_fails [of os s] by (simp add: se)
    ultimately show ?thesis
      by (intro conjI exI [of _ "[Call_attr_init None]"] exI [of _ None]) simp_all
  next
    case mask
    with assms have se: "step = ''posix_spawnattr_setsigmask(&attr, &no_signals)''"
      "e = rc_attr_setsigmask os"
      by (simp_all add: first_failure_def)
    have "events os s = take 2 (config_calls os) @ abort_events os (Some spawnattr_default) step e"
      and "outcome os s = Inl (Exit e)"
      using mask run_setsigmask_fails [of os s] by (simp_all add: se)
    then show ?thesis
      by (intro conjI exI [of _ "take 2 (config_calls os)"] exI [of _ "Some spawnattr_default"])
         (simp_all add: config_calls_def)
  next
    case sigdef
    with assms have se: "step = ''posix_spawnattr_setsigdefault(&attr, &all_signals)''"
      "e = rc_attr_setsigdefault os"
      by (simp_all add: first_failure_def)
    have "events os s = take 3 (config_calls os) @ abort_events os (Some attr_masked) step e"
      and "outcome os s = Inl (Exit e)"
      using sigdef run_setsigdefault_fails [of os s] by (simp_all add: se)
    then show ?thesis
      by (intro conjI exI [of _ "take 3 (config_calls os)"] exI [of _ "Some attr_masked"])
         (simp_all add: config_calls_def)
  next
    case flags
    with assms have se: "step = ''posix_spawnattr_setflags(&attr, flags)''"
      "e = rc_attr_setflags os"
      by (simp_all add: first_failure_def)
    have "events os s = config_calls os @ abort_events os (Some attr_sigdef) step e"
      and "outcome os s = Inl (Exit e)"
      using flags run_setflags_fails [of os s] by (simp_all add: se)
    then show ?thesis
      by (intro conjI exI [of _ "config_calls os"] exI [of _ "Some attr_sigdef"])
         (simp_all add: quiet_config_calls)
  next
    case ext
    with assms have se: "step = ''responsibility_spawnattrs_setdisclaim(&attr, 1)''"
      "e = rc_setdisclaim os"
      by (simp_all add: first_failure_def config_ok_def disclaims_def)
    have "events os s = (config_calls os @ [Call_setdisclaim (Some (attr_flagged os)) 1]) @
            abort_events os (Some (attr_flagged os)) step e"
      and "outcome os s = Inl (Exit e)"
      using ext run_setdisclaim_fails [of os s] by (simp_all add: se)
    then show ?thesis
      by (intro conjI exI [of _ "config_calls os @ [Call_setdisclaim (Some (attr_flagged os)) 1]"]
            exI [of _ "Some (attr_flagged os)"])
         (simp_all add: quiet_config_calls stderr_writes_append)
  next
    case spawn
    with assms have se: "step = ''posix_spawnp(&pid, argv[0], nullptr, &attr, argv, environ)''"
      "e = rc_spawnp os"
      by (auto simp: first_failure_def config_ok_def disclaims_def split: if_splits)
    have "events os s = (config_calls os @ disclaim_calls os @ [spawn_call os]) @
            abort_events os (Some (attr_final os)) step e"
      and "outcome os s = Inl (Exit e)"
      using spawn run_spawnp_fails [of os s] by (simp_all add: se)
    then show ?thesis
      by (intro conjI exI [of _ "config_calls os @ disclaim_calls os @ [spawn_call os]"]
            exI [of _ "Some (attr_final os)"])
         (simp_all add: quiet_config_calls quiet_disclaim_calls stderr_writes_append
            spawn_call_def)
  qed
qed

lemma step_text_one_line:
  assumes "first_failure os = Some (step, e)"
  shows "CHR 0x0A \<notin> set step"
  using assms by (auto simp: first_failure_def split: if_splits)

lemma exit_iff_failure:
  "(\<exists>e. outcome os s = Inl (Exit e)) \<longleftrightarrow> first_failure os \<noteq> None"
proof (cases "first_failure os")
  case (Some p)
  obtain step e where "p = (step, e)" by (cases p)
  with Some failure_run [of os step e s] show ?thesis by auto
next
  case None
  then have ok: "config_ok os" "disclaims os \<longrightarrow> rc_setdisclaim os = 0" "rc_spawnp os = 0"
    by (simp_all add: first_failure_None)
  have "\<forall>e. outcome os s \<noteq> Inl (Exit e)"
  proof (cases "POSIX_SPAWN_SETEXEC os = 0")
    case True
    with ok run_spawnp_returns [of os s] show ?thesis by simp
  next
    case False
    with ok run_spawnp_replaces [of os s] show ?thesis by simp
  qed
  with None show ?thesis by simp
qed

section \<open>The claims\<close>

text \<open>
  Claim C1. Steps 1 to 5 make four calls into the OS: initialise the attributes object,
  set the signal mask, set the signal defaults, set the flags (step 2 only sets a local
  variable). If the first of them to return a non-zero error number returns \<open>e\<close>, then
  \<^verbatim>\<open>disclaim\<close> ends the process by \<^verbatim>\<open>exit(e)\<close>, writes to standard error exactly once,
  and never calls \<^verbatim>\<open>posix_spawnp\<close>. The exit status is the argument that \<^verbatim>\<open>exit\<close>
  receives.
\<close>

theorem config_failure_exits_without_spawn:
  assumes "e \<noteq> 0"
    and "rc_attr_init os = e \<or>
         rc_attr_init os = 0 \<and>
         (rc_attr_setsigmask os = e \<or>
          rc_attr_setsigmask os = 0 \<and>
          (rc_attr_setsigdefault os = e \<or>
           rc_attr_setsigdefault os = 0 \<and> rc_attr_setflags os = e))"
  shows "outcome os s = Inl (Exit e) \<and>
         length (stderr_writes (events os s)) = 1 \<and>
         filter is_spawnp (events os s) = []"
proof -
  consider
      (init) "rc_attr_init os = e"
    | (mask) "rc_attr_init os = 0" "rc_attr_setsigmask os = e"
    | (sigdef) "rc_attr_init os = 0" "rc_attr_setsigmask os = 0" "rc_attr_setsigdefault os = e"
    | (flags) "rc_attr_init os = 0" "rc_attr_setsigmask os = 0" "rc_attr_setsigdefault os = 0"
        "rc_attr_setflags os = e"
    using assms(2) by blast
  then show ?thesis
  proof cases
    case init
    with assms(1) run_init_fails [of os s] show ?thesis
      by (simp add: abort_events_def)
  next
    case mask
    with assms(1) run_setsigmask_fails [of os s] show ?thesis
      by (simp add: abort_events_def config_calls_def)
  next
    case sigdef
    with assms(1) run_setsigdefault_fails [of os s] show ?thesis
      by (simp add: abort_events_def config_calls_def)
  next
    case flags
    with assms(1) run_setflags_fails [of os s] show ?thesis
      by (simp add: abort_events_def config_calls_def)
  qed
qed

theorem config_failure_exits_without_spawn_witness:
  "(22::int) \<noteq> 0 \<and>
   rc_attr_init (sample_os\<lparr>rc_attr_setflags := 22\<rparr>) = 0 \<and>
   rc_attr_setsigmask (sample_os\<lparr>rc_attr_setflags := 22\<rparr>) = 0 \<and>
   rc_attr_setsigdefault (sample_os\<lparr>rc_attr_setflags := 22\<rparr>) = 0 \<and>
   rc_attr_setflags (sample_os\<lparr>rc_attr_setflags := 22\<rparr>) = 22 \<and>
   outcome (sample_os\<lparr>rc_attr_setflags := 22\<rparr>) proc_start = Inl (Exit 22) \<and>
   length (stderr_writes (events (sample_os\<lparr>rc_attr_setflags := 22\<rparr>) proc_start)) = 1 \<and>
   filter is_spawnp (events (sample_os\<lparr>rc_attr_setflags := 22\<rparr>) proc_start) = [] \<and>
   outcome (sample_os\<lparr>rc_attr_init := 12\<rparr>) proc_start = Inl (Exit 12) \<and>
   outcome (sample_os\<lparr>rc_attr_setsigmask := 22\<rparr>) proc_start = Inl (Exit 22) \<and>
   outcome (sample_os\<lparr>rc_attr_setsigdefault := 22\<rparr>) proc_start = Inl (Exit 22)"
  using
    config_failure_exits_without_spawn [of 22 "sample_os\<lparr>rc_attr_setflags := 22\<rparr>" proc_start]
    config_failure_exits_without_spawn [of 12 "sample_os\<lparr>rc_attr_init := 12\<rparr>" proc_start]
    config_failure_exits_without_spawn [of 22 "sample_os\<lparr>rc_attr_setsigmask := 22\<rparr>" proc_start]
    config_failure_exits_without_spawn [of 22 "sample_os\<lparr>rc_attr_setsigdefault := 22\<rparr>" proc_start]
  by (simp add: sample_os_def)

text \<open>
  Claim C2. When every call before the spawn succeeds (the extension is skipped or
  succeeds) and the spawn call succeeds, \<^verbatim>\<open>disclaim\<close> does not return: the process image
  is replaced, and whatever code \<open>k\<close> the hosting program places after the call is never
  run, so the process state is the one \<^verbatim>\<open>disclaim\<close> left. The flag constant
  \<^verbatim>\<open>POSIX_SPAWN_SETEXEC\<close> is a parameter of the model; that it is a flag at all, that is
  not 0, is what makes a successful spawn replace the process.
\<close>

theorem successful_spawn_never_returns:
  assumes "config_ok os" and "disclaims os \<longrightarrow> rc_setdisclaim os = 0"
    and "rc_spawnp os = 0" and "POSIX_SPAWN_SETEXEC os \<noteq> 0"
  shows "outcome os s =
           Inl (Replaced \<lparr>img_path = argv0 (NSGetArgv os), img_attr = Some (attr_final os),
                          img_argv = NSGetArgv os, img_envp = environ os\<rparr>) \<and>
         seq_act (disclaim os) k s =
           (Inl (Replaced \<lparr>img_path = argv0 (NSGetArgv os), img_attr = Some (attr_final os),
                           img_argv = NSGetArgv os, img_envp = environ os\<rparr>),
            snd (disclaim os s))"
proof -
  let ?img = "\<lparr>img_path = argv0 (NSGetArgv os), img_attr = Some (attr_final os),
                img_argv = NSGetArgv os, img_envp = environ os\<rparr>"
  have out: "outcome os s = Inl (Replaced ?img)"
    using assms run_spawnp_replaces [of os s] by simp
  then have "fst (disclaim os s) = Inl (Replaced ?img)"
    by (simp add: outcome_def)
  then have "seq_act (disclaim os) k s = (Inl (Replaced ?img), snd (disclaim os s))"
    by (cases "disclaim os s") (simp add: seq_act_def bind_act_def)
  with out show ?thesis by simp
qed

theorem successful_spawn_never_returns_witness:
  "config_ok sample_os \<and> disclaims sample_os \<and> rc_setdisclaim sample_os = 0 \<and>
   rc_spawnp sample_os = 0 \<and> POSIX_SPAWN_SETEXEC sample_os \<noteq> 0 \<and>
   outcome sample_os proc_start =
     Inl (Replaced \<lparr>img_path = Some ''osxphotos'', img_attr = Some (attr_final sample_os),
                    img_argv = [''osxphotos'', ''export'', ''/tmp/out''],
                    img_envp = [''HOME=/Users/photos'', ''LANG=en_US.UTF-8'']\<rparr>) \<and>
   seq_act (disclaim sample_os) (fprintf_stderr ''sentinel'') proc_start =
     (Inl (Replaced \<lparr>img_path = Some ''osxphotos'', img_attr = Some (attr_final sample_os),
                     img_argv = [''osxphotos'', ''export'', ''/tmp/out''],
                     img_envp = [''HOME=/Users/photos'', ''LANG=en_US.UTF-8'']\<rparr>),
      snd (disclaim sample_os proc_start))"
  using successful_spawn_never_returns [of sample_os proc_start "fprintf_stderr ''sentinel''"]
  by (simp add: sample_os_def config_ok_def disclaims_def argv0_def)

text \<open>
  Claim C3. After the four configuration calls have succeeded: if the availability check
  passes and the weakly imported symbol is bound, the fifth event is the call of the
  extension on the configured attributes object with the value 1; if either check fails,
  the fifth event is the spawn call itself (nothing is released, written or exited in
  between, and the attributes object carries no disclaim value), and the extension is
  never called.
\<close>

theorem disclaim_step_is_optional:
  assumes "config_ok os"
  shows "(builtin_available os \<and> setdisclaim_bound os \<longrightarrow>
            take 5 (events os s) =
              config_calls os @ [Call_setdisclaim (Some (attr_flagged os)) 1]) \<and>
         (\<not> (builtin_available os \<and> setdisclaim_bound os) \<longrightarrow>
            take 5 (events os s) =
              config_calls os @
              [Call_spawnp (argv0 (NSGetArgv os)) None (Some (attr_flagged os))
                 (NSGetArgv os) (environ os)] \<and>
            filter is_setdisclaim (events os s) = [])"
proof (cases "disclaims os")
  case True
  have "take 5 (events os s) = config_calls os @ [Call_setdisclaim (Some (attr_flagged os)) 1]"
  proof (cases "rc_setdisclaim os = 0")
    case False
    with assms True run_setdisclaim_fails [of os s] show ?thesis
      by (simp add: config_calls_def)
  next
    case ok: True
    show ?thesis
    proof (cases "rc_spawnp os = 0")
      case False
      with assms ok True run_spawnp_fails [of os s] show ?thesis
        by (simp add: config_calls_def disclaim_calls_def)
    next
      case spawned: True
      show ?thesis
      proof (cases "POSIX_SPAWN_SETEXEC os = 0")
        case True
        with assms ok spawned \<open>disclaims os\<close> run_spawnp_returns [of os s] show ?thesis
          by (simp add: config_calls_def disclaim_calls_def)
      next
        case False
        with assms ok spawned \<open>disclaims os\<close> run_spawnp_replaces [of os s] show ?thesis
          by (simp add: config_calls_def disclaim_calls_def)
      qed
    qed
  qed
  with True show ?thesis by (simp add: disclaims_def)
next
  case False
  then have fin: "attr_final os = attr_flagged os" "disclaim_calls os = []"
    by (simp_all add: attr_final_def disclaim_calls_def)
  have "take 5 (events os s) = config_calls os @ [spawn_call os] \<and>
        filter is_setdisclaim (events os s) = []"
  proof (cases "rc_spawnp os = 0")
    case nz: False
    with assms False run_spawnp_fails [of os s] show ?thesis
      by (simp add: config_calls_def fin spawn_call_def abort_events_def)
  next
    case spawned: True
    show ?thesis
    proof (cases "POSIX_SPAWN_SETEXEC os = 0")
      case True
      with assms spawned False run_spawnp_returns [of os s] show ?thesis
        by (simp add: config_calls_def fin spawn_call_def)
    next
      case nz: False
      with assms spawned False run_spawnp_replaces [of os s] show ?thesis
        by (simp add: config_calls_def fin spawn_call_def)
    qed
  qed
  with False show ?thesis by (simp add: disclaims_def spawn_call_def fin)
qed

theorem disclaim_step_is_optional_witness:
  "config_ok sample_os \<and> builtin_available sample_os \<and> setdisclaim_bound sample_os \<and>
   take 5 (events sample_os proc_start) =
     config_calls sample_os @ [Call_setdisclaim (Some (attr_flagged sample_os)) 1] \<and>
   config_ok (sample_os\<lparr>setdisclaim_bound := False\<rparr>) \<and>
   \<not> setdisclaim_bound (sample_os\<lparr>setdisclaim_bound := False\<rparr>) \<and>
   take 5 (events (sample_os\<lparr>setdisclaim_bound := False\<rparr>) proc_start) =
     config_calls (sample_os\<lparr>setdisclaim_bound := False\<rparr>) @
     [Call_spawnp (Some ''osxphotos'') None
        (Some (attr_flagged (sample_os\<lparr>setdisclaim_bound := False\<rparr>)))
        [''osxphotos'', ''export'', ''/tmp/out'']
        [''HOME=/Users/photos'', ''LANG=en_US.UTF-8'']] \<and>
   filter is_setdisclaim (events (sample_os\<lparr>setdisclaim_bound := False\<rparr>) proc_start) = [] \<and>
   config_ok (sample_os\<lparr>builtin_available := False\<rparr>) \<and>
   \<not> builtin_available (sample_os\<lparr>builtin_available := False\<rparr>) \<and>
   filter is_setdisclaim (events (sample_os\<lparr>builtin_available := False\<rparr>) proc_start) = []"
  using disclaim_step_is_optional [of sample_os proc_start]
    disclaim_step_is_optional [of "sample_os\<lparr>setdisclaim_bound := False\<rparr>" proc_start]
    disclaim_step_is_optional [of "sample_os\<lparr>builtin_available := False\<rparr>" proc_start]
  by (simp add: sample_os_def config_ok_def argv0_def)

text \<open>
  Claim C4. When every call before it succeeds, the spawn call is made exactly once,
  with \<^verbatim>\<open>argv[0]\<close> as the path, a null file-actions pointer, the attributes object as
  populated by the preceding calls, the argument vector and the environment block as they
  are; and when the call succeeds, the new image is started on that same path, argument
  vector and environment.
\<close>

theorem spawn_call_arguments:
  assumes "config_ok os" and "disclaims os \<longrightarrow> rc_setdisclaim os = 0"
  shows "filter is_spawnp (events os s) =
           [Call_spawnp (argv0 (NSGetArgv os)) None (Some (attr_final os))
              (NSGetArgv os) (environ os)] \<and>
         (rc_spawnp os = 0 \<and> POSIX_SPAWN_SETEXEC os \<noteq> 0 \<longrightarrow>
            outcome os s =
              Inl (Replaced \<lparr>img_path = argv0 (NSGetArgv os), img_attr = Some (attr_final os),
                             img_argv = NSGetArgv os, img_envp = environ os\<rparr>))"
proof -
  have no_spawn: "filter is_spawnp (config_calls os @ disclaim_calls os) = []"
    by (simp add: config_calls_def disclaim_calls_def)
  have "filter is_spawnp (events os s) = [spawn_call os]"
  proof (cases "rc_spawnp os = 0")
    case False
    with assms run_spawnp_fails [of os s]
    have "events os s = (config_calls os @ disclaim_calls os) @ spawn_call os #
           abort_events os (Some (attr_final os))
             ''posix_spawnp(&pid, argv[0], nullptr, &attr, argv, environ)'' (rc_spawnp os)"
      by simp
    then show ?thesis
      using no_spawn by (simp add: spawn_call_def abort_events_def del: append_assoc)
  next
    case spawned: True
    have "events os s = (config_calls os @ disclaim_calls os) @ [spawn_call os]"
    proof (cases "POSIX_SPAWN_SETEXEC os = 0")
      case True
      with assms spawned run_spawnp_returns [of os s] show ?thesis by simp
    next
      case False
      with assms spawned run_spawnp_replaces [of os s] show ?thesis by simp
    qed
    then show ?thesis
      using no_spawn by (simp add: spawn_call_def del: append_assoc)
  qed
  moreover have "rc_spawnp os = 0 \<and> POSIX_SPAWN_SETEXEC os \<noteq> 0 \<longrightarrow>
      outcome os s =
        Inl (Replaced \<lparr>img_path = argv0 (NSGetArgv os), img_attr = Some (attr_final os),
                       img_argv = NSGetArgv os, img_envp = environ os\<rparr>)"
    using assms run_spawnp_replaces [of os s] by simp
  ultimately show ?thesis by (simp add: spawn_call_def)
qed

theorem spawn_call_arguments_witness:
  "config_ok sample_os \<and> disclaims sample_os \<and> rc_setdisclaim sample_os = 0 \<and>
   rc_spawnp sample_os = 0 \<and> POSIX_SPAWN_SETEXEC sample_os \<noteq> 0 \<and>
   filter is_spawnp (events sample_os proc_start) =
     [Call_spawnp (Some ''osxphotos'') None
        (Some \<lparr>psa_flags = 0x4C, psa_sigmask = {}, psa_sigdefault = UNIV, psa_disclaim = 1\<rparr>)
        [''osxphotos'', ''export'', ''/tmp/out'']
        [''HOME=/Users/photos'', ''LANG=en_US.UTF-8'']] \<and>
   outcome sample_os proc_start =
     Inl (Replaced
       \<lparr>img_path = Some ''osxphotos'',
        img_attr = Some \<lparr>psa_flags = 0x4C, psa_sigmask = {}, psa_sigdefault = UNIV,
                         psa_disclaim = 1\<rparr>,
        img_argv = [''osxphotos'', ''export'', ''/tmp/out''],
        img_envp = [''HOME=/Users/photos'', ''LANG=en_US.UTF-8'']\<rparr>)"
  using spawn_call_arguments [of sample_os proc_start]
  by (simp add: sample_os_def config_ok_def disclaims_def argv0_def attr_final_def
      attr_disclaimed_def all_flags_def)

text \<open>
  Claim C5. Once the attributes object is initialised, the signal mask passed to the one
  set-signal-mask call is the empty set; once that call has succeeded, the set passed to
  the one set-signal-default call is the full set; and every attributes object that
  reaches the spawn call has the empty set as its mask and the full set as its set of
  signals to reset.
\<close>

theorem signal_sets_installed:
  assumes "rc_attr_init os = 0"
  shows "setsigmask_calls (events os s) = [{}] \<and>
         (rc_attr_setsigmask os = 0 \<longrightarrow> setsigdefault_calls (events os s) = [UNIV]) \<and>
         list_all (\<lambda>a. map_option psa_sigmask a = Some {} \<and>
                        map_option psa_sigdefault a = Some UNIV)
           (spawn_attrs (events os s))"
  using assms
  by (simp add: act_defs events_def setexec_requested_def split: if_splits)

theorem signal_sets_installed_witness:
  "rc_attr_init sample_os = 0 \<and> rc_attr_setsigmask sample_os = 0 \<and>
   setsigmask_calls (events sample_os proc_start) = [{}] \<and>
   setsigdefault_calls (events sample_os proc_start) = [UNIV] \<and>
   list_all (\<lambda>a. map_option psa_sigmask a = Some {} \<and> map_option psa_sigdefault a = Some UNIV)
     (spawn_attrs (events sample_os proc_start))"
  using signal_sets_installed [of sample_os proc_start]
  by (simp add: sample_os_def)

text \<open>
  Claim C6. When initialisation and the two signal-set calls succeed, the fourth call is
  the set-flags call: it comes after the mask and the signal defaults are in the
  attributes object, that object still has no flag set at that moment, the value passed
  is the three flags or-ed together in the order the source accumulates them, and it is
  the only set-flags call of the run. No run makes more than one set-flags call.
\<close>

theorem flags_applied_once_at_end:
  "(rc_attr_init os = 0 \<and> rc_attr_setsigmask os = 0 \<and> rc_attr_setsigdefault os = 0 \<longrightarrow>
      take 4 (events os s) =
        [Call_attr_init None,
         Call_attr_setsigmask
           (Some \<lparr>psa_flags = 0, psa_sigmask = {}, psa_sigdefault = {}, psa_disclaim = 0\<rparr>) {},
         Call_attr_setsigdefault
           (Some \<lparr>psa_flags = 0, psa_sigmask = {}, psa_sigdefault = {}, psa_disclaim = 0\<rparr>) UNIV,
         Call_attr_setflags
           (Some \<lparr>psa_flags = 0, psa_sigmask = {}, psa_sigdefault = UNIV, psa_disclaim = 0\<rparr>)
           ((POSIX_SPAWN_SETEXEC os OR POSIX_SPAWN_SETSIGMASK os) OR POSIX_SPAWN_SETSIGDEF os)] \<and>
      setflags_calls (events os s) =
        [(POSIX_SPAWN_SETEXEC os OR POSIX_SPAWN_SETSIGMASK os) OR POSIX_SPAWN_SETSIGDEF os]) \<and>
   length (setflags_calls (events os s)) \<le> 1"
  by (simp add: act_defs events_def setexec_requested_def spawnattr_default_def split: if_splits)

theorem flags_applied_once_at_end_witness:
  "rc_attr_init sample_os = 0 \<and> rc_attr_setsigmask sample_os = 0 \<and>
   rc_attr_setsigdefault sample_os = 0 \<and>
   take 4 (events sample_os proc_start) =
     [Call_attr_init None,
      Call_attr_setsigmask
        (Some \<lparr>psa_flags = 0, psa_sigmask = {}, psa_sigdefault = {}, psa_disclaim = 0\<rparr>) {},
      Call_attr_setsigdefault
        (Some \<lparr>psa_flags = 0, psa_sigmask = {}, psa_sigdefault = {}, psa_disclaim = 0\<rparr>) UNIV,
      Call_attr_setflags
        (Some \<lparr>psa_flags = 0, psa_sigmask = {}, psa_sigdefault = UNIV, psa_disclaim = 0\<rparr>)
        0x4C] \<and>
   setflags_calls (events sample_os proc_start) = [0x4C] \<and>
   length (setflags_calls (events sample_os proc_start)) \<le> 1"
  using flags_applied_once_at_end [of sample_os proc_start]
  by (simp add: sample_os_def)

text \<open>
  Claim C7. On any failure, that is whenever some call of the sequence returns a
  non-zero error number, with \<open>step\<close> the text of the first such call and \<open>e\<close> its
  error number, exactly one text is written to standard error and it is
  \<^verbatim>\<open>[disclaim] \<close>, the text of the call, \<^verbatim>\<open>: \<close> and the OS's description of \<open>e\<close>. The
  source appends nothing to it, and it contains a line break only if the OS's
  description does.
\<close>

theorem diagnostic_text:
  assumes "first_failure os = Some (step, e)"
  shows "stderr_writes (events os s) = [''[disclaim] '' @ step @ '': '' @ strerror os e] \<and>
         (CHR 0x0A \<notin> set (strerror os e) \<longrightarrow>
            CHR 0x0A \<notin> set (''[disclaim] '' @ step @ '': '' @ strerror os e))"
proof -
  from failure_run [OF assms, of s] obtain pre a where
    "events os s = pre @ abort_events os a step e" "stderr_writes pre = []"
    by blast
  then have "stderr_writes (events os s) = [''[disclaim] '' @ step @ '': '' @ strerror os e]"
    by (simp add: stderr_writes_append abort_events_def diagnostic_def)
  then show ?thesis
    using step_text_one_line [OF assms] by simp
qed

theorem diagnostic_text_witness:
  "first_failure (sample_os\<lparr>rc_spawnp := 2\<rparr>) =
     Some (''posix_spawnp(&pid, argv[0], nullptr, &attr, argv, environ)'', 2) \<and>
   stderr_writes (events (sample_os\<lparr>rc_spawnp := 2\<rparr>) proc_start) =
     [''[disclaim] posix_spawnp(&pid, argv[0], nullptr, &attr, argv, environ): No such file or directory''] \<and>
   CHR 0x0A \<notin> set (strerror (sample_os\<lparr>rc_spawnp := 2\<rparr>) 2) \<and>
   CHR 0x0A \<notin> set ''[disclaim] posix_spawnp(&pid, argv[0], nullptr, &attr, argv, environ): No such file or directory''"
  using diagnostic_text [of "sample_os\<lparr>rc_spawnp := 2\<rparr>"
      "''posix_spawnp(&pid, argv[0], nullptr, &attr, argv, environ)''" 2 proc_start]
  by (simp add: sample_os_def first_failure_def)

text \<open>
  Claim C8. On any failure, with \<open>step\<close> and \<open>e\<close> as in C7, the run ends with three
  events in this order: the attributes object is destroyed, the diagnostic is written,
  \<^verbatim>\<open>exit(e)\<close> is called; nothing before them is a destroy, a write to standard error or
  an exit; and the outcome is the exit with status \<open>e\<close>.
\<close>

theorem release_and_diagnostic_precede_exit:
  assumes "first_failure os = Some (step, e)"
  shows "outcome os s = Inl (Exit e) \<and>
         (\<exists>pre a. events os s =
              pre @ [Call_attr_destroy a,
                     Write_stderr (''[disclaim] '' @ step @ '': '' @ strerror os e),
                     Call_exit e] \<and>
            filter is_destroy pre = [] \<and> stderr_writes pre = [] \<and> filter is_exit pre = [])"
  using failure_run [OF assms, of s] by (simp add: abort_events_def diagnostic_def)

theorem release_and_diagnostic_precede_exit_witness:
  "first_failure (sample_os\<lparr>rc_attr_setsigdefault := 22\<rparr>) =
     Some (''posix_spawnattr_setsigdefault(&attr, &all_signals)'', 22) \<and>
   outcome (sample_os\<lparr>rc_attr_setsigdefault := 22\<rparr>) proc_start = Inl (Exit 22) \<and>
   (\<exists>pre a. events (sample_os\<lparr>rc_attr_setsigdefault := 22\<rparr>) proc_start =
        pre @ [Call_attr_destroy a,
               Write_stderr
                 ''[disclaim] posix_spawnattr_setsigdefault(&attr, &all_signals): Invalid argument'',
               Call_exit 22] \<and>
      filter is_destroy pre = [] \<and> stderr_writes pre = [] \<and> filter is_exit pre = [])"
  using release_and_diagnostic_precede_exit [of "sample_os\<lparr>rc_attr_setsigdefault := 22\<rparr>"
      "''posix_spawnattr_setsigdefault(&attr, &all_signals)''" 22 proc_start]
  by (simp add: sample_os_def first_failure_def)

text \<open>
  Claim C9. When the four configuration calls succeed, the extension is available and
  bound, and its call returns a non-zero error number \<open>e\<close>, the failure is handled as
  any other: the attributes object is destroyed, one diagnostic is written, the process
  exits with \<open>e\<close>, and the spawn call is never made.
\<close>

theorem setdisclaim_failure_is_fatal:
  assumes "config_ok os" and "builtin_available os" and "setdisclaim_bound os"
    and "rc_setdisclaim os = e" and "e \<noteq> 0"
  shows "outcome os s = Inl (Exit e) \<and>
         events os s = config_calls os @
           [Call_setdisclaim (Some (attr_flagged os)) 1,
            Call_attr_destroy (Some (attr_flagged os)),
            Write_stderr (''[disclaim] responsibility_spawnattrs_setdisclaim(&attr, 1): '' @
                          strerror os e),
            Call_exit e] \<and>
         length (stderr_writes (events os s)) = 1 \<and>
         filter is_spawnp (events os s) = []"
proof -
  have "disclaims os"
    using assms(2,3) by (simp add: disclaims_def)
  with assms(1,4,5) run_setdisclaim_fails [of os s]
  have run: "outcome os s = Inl (Exit e)"
    "events os s = config_calls os @ Call_setdisclaim (Some (attr_flagged os)) 1 #
       abort_events os (Some (attr_flagged os))
         ''responsibility_spawnattrs_setdisclaim(&attr, 1)'' e"
    by simp_all
  show ?thesis
    by (simp add: run abort_events_def diagnostic_def config_calls_def)
qed

theorem setdisclaim_failure_is_fatal_witness:
  "config_ok (sample_os\<lparr>rc_setdisclaim := 22\<rparr>) \<and>
   builtin_available (sample_os\<lparr>rc_setdisclaim := 22\<rparr>) \<and>
   setdisclaim_bound (sample_os\<lparr>rc_setdisclaim := 22\<rparr>) \<and>
   rc_setdisclaim (sample_os\<lparr>rc_setdisclaim := 22\<rparr>) = 22 \<and> (22::int) \<noteq> 0 \<and>
   outcome (sample_os\<lparr>rc_setdisclaim := 22\<rparr>) proc_start = Inl (Exit 22) \<and>
   stderr_writes (events (sample_os\<lparr>rc_setdisclaim := 22\<rparr>) proc_start) =
     [''[disclaim] responsibility_spawnattrs_setdisclaim(&attr, 1): Invalid argument''] \<and>
   filter is_spawnp (events (sample_os\<lparr>rc_setdisclaim := 22\<rparr>) proc_start) = []"
  using setdisclaim_failure_is_fatal [of "sample_os\<lparr>rc_setdisclaim := 22\<rparr>" 22 proc_start]
  by (simp add: sample_os_def config_ok_def config_calls_def)

text \<open>
  Claim C10. When the initialisation of the attributes object itself fails with \<open>e\<close>,
  the failure branch still calls destroy on the variable, which then holds no
  initialised object (\<open>None\<close>), before the diagnostic is written and the process exits
  with \<open>e\<close>.
\<close>

theorem init_failure_still_destroys:
  assumes "rc_attr_init os = e" and "e \<noteq> 0"
  shows "events os s =
           [Call_attr_init None,
            Call_attr_destroy None,
            Write_stderr (''[disclaim] posix_spawnattr_init(&attr): '' @ strerror os e),
            Call_exit e] \<and>
         outcome os s = Inl (Exit e)"
  using assms run_init_fails [of os s] by (simp add: abort_events_def diagnostic_def)

theorem init_failure_still_destroys_witness:
  "rc_attr_init (sample_os\<lparr>rc_attr_init := 12\<rparr>) = 12 \<and> (12::int) \<noteq> 0 \<and>
   events (sample_os\<lparr>rc_attr_init := 12\<rparr>) proc_start =
     [Call_attr_init None,
      Call_attr_destroy None,
      Write_stderr ''[disclaim] posix_spawnattr_init(&attr): Cannot allocate memory'',
      Call_exit 12] \<and>
   outcome (sample_os\<lparr>rc_attr_init := 12\<rparr>) proc_start = Inl (Exit 12)"
  using init_failure_still_destroys [of "sample_os\<lparr>rc_attr_init := 12\<rparr>" 12 proc_start]
  by (simp add: sample_os_def)

end
